theory Spec2Isabelle
  imports Complex_Main "HOL-Library.Multiset"
begin

section \<open>Data model (modules/analysis/types, models/analysis.model, models/puzzle.model)\<close>

datatype AnalysisStatus = PENDING | PROCESSING | COMPLETED | FAILED

datatype PlayerColor = white | black

text \<open>
  \<open>AnalysisMetadata\<close>.  The schema gives \<open>white\<close>, \<open>black\<close> and \<open>result\<close> string
  defaults; the other fields are optional (\<open>None\<close> is \<open>undefined\<close>).  The fields
  \<open>white\<close>, \<open>black\<close> and \<open>opening\<close> are written \<open>white_name\<close>, \<open>black_name\<close> and
  \<open>opening_name\<close> (the first two name the colours below, the third is a keyword of
  Isabelle).  The field \<open>result\<close> of the metadata is written
  \<open>AnalysisMetadata.result\<close>, since the job record has a field of the same name.
\<close>

record AnalysisMetadata =
  white_name :: string
  black_name :: string
  result :: string
  event :: "string option"
  date :: "string option"
  eco :: "string option"
  opening_name :: "string option"

datatype Difficulty = easy | medium | hard

record ChessPuzzle =
  title :: string
  description :: string
  fen :: string
  solution :: string
  hint :: "string option"
  difficulty :: Difficulty
  theme :: string

text \<open>\<open>IPuzzle extends ChessPuzzle\<close>: a document of the Puzzle collection.\<close>

record IPuzzle = ChessPuzzle +
  puzzle_id :: string
  puzzle_user_id :: string
  puzzle_analysis_id :: "string option"

record Phase =
  name :: string
  moves :: string
  phase_evaluation :: string
  key_ideas :: "string list"

record KeyMoment =
  move_number :: int
  move :: string
  moment_fen :: string
  evaluation :: string
  comment :: string
  is_mistake :: bool

text \<open>\<open>Omit<AnalysisResult, "puzzles">\<close>, and \<open>AnalysisResult\<close> as its extension by the
  list of puzzle ids.\<close>

record AnalysisResultWithoutPuzzles =
  summary :: string
  phases :: "Phase list"
  key_moments :: "KeyMoment list"
  recommendations :: "string list"

record AnalysisResult = AnalysisResultWithoutPuzzles +
  puzzles :: "string list"

text \<open>
  \<open>IAnalysis\<close>, one job record.  \<open>user_id\<close> is the value of \<open>user_id?.toString()\<close>
  (\<open>None\<close> when the field is null or undefined).  \<open>result = None\<close> stands for the
  schema default \<open>{}\<close>, \<open>error = None\<close> and \<open>completed_at = None\<close> for fields that
  were never set.  \<open>batch_id\<close>, \<open>gcs_url\<close> and the two timestamps kept by the schema
  are read by none of the functions below and are left out.
\<close>

record IAnalysis =
  analysis_id :: string
  user_id :: "string option"
  status :: AnalysisStatus
  pgn :: string
  player_name :: string
  player_color :: "PlayerColor option"
  metadata :: AnalysisMetadata
  result :: "AnalysisResult option"
  error :: "string option"
  completed_at :: "nat option"

section \<open>Effects: thrown values, the store, the list of effects\<close>

text \<open>A thrown JavaScript value: an \<open>Error\<close> object with its message, or anything else.\<close>

datatype thrown = Error string | NonError

text \<open>
  The list of effects records what leaves the process: a write of a job document that
  the store accepted or rejected, the call of the external generation service, and a
  batch of puzzle documents that the store accepted or rejected.
\<close>

datatype effect =
    AnalysisSaved IAnalysis
  | AnalysisSaveRejected IAnalysis
  | GenerateTextCalled
  | PuzzlesSaved "IPuzzle list"
  | PuzzlesSaveRejected

record world =
  Analysis :: "IAnalysis list"
  Puzzle :: "IPuzzle list"
  effects :: "effect list"

text \<open>
  \<open>GeminiAnalysisResult\<close>, the parsed answer of the service: the result with the
  puzzles as full objects (\<open>None\<close> when the answer has no \<open>puzzles\<close>).
\<close>

record GeminiAnalysisResult = AnalysisResultWithoutPuzzles +
  gemini_puzzles :: "ChessPuzzle list option"

text \<open>
  What the collaborators answer during one invocation: the environment variable with
  the API key, the answer of \<open>generateText\<close>, \<open>JSON.parse\<close> followed by the unchecked
  cast to \<open>GeminiAnalysisResult\<close>, the answer of the store to each of the three
  \<open>analysis.save()\<close> calls (\<open>None\<close>: the write is accepted), the answer of the store to
  the puzzle batch, the ids given to new puzzle documents, and the clock.  A throw of
  \<open>findOne\<close> itself is not modelled.
\<close>

record env =
  api_key :: "string option"
  generateText :: "thrown + string"
  JSON_parse :: "string \<Rightarrow> thrown + GeminiAnalysisResult"
  save_PROCESSING :: "thrown option"
  save_COMPLETED :: "thrown option"
  save_FAILED :: "thrown option"
  puzzle_write :: "thrown option"
  new_puzzle_id :: "nat \<Rightarrow> string"
  now :: nat

section \<open>The reasoning client (gemini.service.ts)\<close>

text \<open>
  \<open>text.match(/\{[\s\S]*\}/)\<close>: the leftmost match of an opening brace, any
  characters (greedy, line breaks included), a closing brace.  The match starts at the
  first \<open>{\<close> of the text and ends at the last \<open>}\<close> behind it; there is none when the
  text has no \<open>{\<close> or no \<open>}\<close> behind the first \<open>{\<close>.
\<close>

definition jsonMatch :: "string \<Rightarrow> string option" where
  "jsonMatch text =
     (case dropWhile (\<lambda>c. c \<noteq> CHR ''{'') text of
        [] \<Rightarrow> None
      | c # rest \<Rightarrow>
          (case dropWhile (\<lambda>c. c \<noteq> CHR ''}'') (rev rest) of
             [] \<Rightarrow> None
           | r \<Rightarrow> Some (c # rev r)))"

text \<open>Lines 181-187 of \<open>analyzeGame\<close>: match, then parse; either step may throw.\<close>

definition parseResponse :: "(string \<Rightarrow> thrown + 'a) \<Rightarrow> string \<Rightarrow> thrown + 'a" where
  "parseResponse parse text =
     (case jsonMatch text of
        None \<Rightarrow> Inl (Error ''Failed to parse JSON from Gemini response'')
      | Some s \<Rightarrow> parse s)"

text \<open>\<open>const { puzzles: _, ...resultWithoutPuzzles } = geminiResult\<close>\<close>

definition omit_puzzles :: "GeminiAnalysisResult \<Rightarrow> AnalysisResultWithoutPuzzles" where
  "omit_puzzles g =
     \<lparr> summary = summary g, phases = phases g, key_moments = key_moments g,
       recommendations = recommendations g \<rparr>"

text \<open>
  \<open>analyzeGame\<close>.  The prompt built from the game only reaches \<open>generateText\<close>, whose
  answer is given by the environment, so the arguments of the source are not repeated
  here.  The function reads and writes no store; it returns what it throws or returns,
  together with the effects it had (the call of the external service, when it got that
  far).  The catch block of the source logs and rethrows.
\<close>

definition analyzeGame ::
  "env \<Rightarrow> (thrown + AnalysisResultWithoutPuzzles \<times> ChessPuzzle list) \<times> effect list" where
  "analyzeGame e =
     (if api_key e = None \<or> api_key e = Some []
      then (Inl (Error (''GOOGLE_GENERATIVE_AI_API_KEY environment variable is not set. '' @
                        ''Please set it in your environment variables or Cloud Run configuration.'')), [])
      else
        (case generateText e of
           Inl t \<Rightarrow> (Inl t, [GenerateTextCalled])
         | Inr text \<Rightarrow>
             (case parseResponse (JSON_parse e) text of
                Inl t \<Rightarrow> (Inl t, [GenerateTextCalled])
              | Inr geminiResult \<Rightarrow>
                  let puzzles = (case gemini_puzzles geminiResult of None \<Rightarrow> [] | Some ps \<Rightarrow> ps)
                  in (Inr (omit_puzzles geminiResult, puzzles), [GenerateTextCalled]))))"

section \<open>The puzzle service\<close>

text \<open>
  Modelled from the spec: \<open>puzzleService.savePuzzles\<close> (puzzle.service.ts is not among
  the sources).  Section 4.2: a no-op returning the empty list if there is no candidate
  or the owner is the guest; otherwise each candidate becomes one Puzzle document with
  a fresh id, and the documents are returned in order.  Section 4.3 step 5: the batch
  is atomic, so a rejected write leaves the collection as it was.
\<close>

definition savePuzzles ::
  "env \<Rightarrow> ChessPuzzle list \<Rightarrow> string \<Rightarrow> string \<Rightarrow> world \<Rightarrow> (thrown + IPuzzle list) \<times> world" where
  "savePuzzles e candidates userId analysisId w =
     (if candidates = [] \<or> userId = ''guest'' then (Inr [], w)
      else
        (case puzzle_write e of
           Some t \<Rightarrow> (Inl t, w\<lparr>effects := effects w @ [PuzzlesSaveRejected]\<rparr>)
         | None \<Rightarrow>
             let docs = map (\<lambda>(i, p). ChessPuzzle.extend p
                               (IPuzzle.fields (new_puzzle_id e (length (Puzzle w) + i))
                                  userId (Some analysisId)))
                            (enumerate 0 candidates)
             in (Inr docs, w\<lparr>Puzzle := Puzzle w @ docs, effects := effects w @ [PuzzlesSaved docs]\<rparr>)))"

section \<open>The job processor (worker service, \<open>processAnalysis\<close>)\<close>

text \<open>\<open>Analysis.findOne({ analysis_id: analysisId })\<close>\<close>

definition findOne :: "world \<Rightarrow> string \<Rightarrow> IAnalysis option" where
  "findOne w analysisId = find (\<lambda>a. analysis_id a = analysisId) (Analysis w)"

text \<open>
  \<open>analysis.save()\<close>: the document in memory replaces the stored document of the same
  \<open>analysis_id\<close> (the schema makes it unique), or the store rejects the write and the
  call throws.
\<close>

definition save :: "thrown option \<Rightarrow> IAnalysis \<Rightarrow> world \<Rightarrow> thrown option \<times> world" where
  "save answer doc w =
     (case answer of
        None \<Rightarrow>
          (None, w\<lparr>Analysis := map (\<lambda>d. if analysis_id d = analysis_id doc then doc else d)
                                    (Analysis w),
                    effects := effects w @ [AnalysisSaved doc]\<rparr>)
      | Some t \<Rightarrow> (Some t, w\<lparr>effects := effects w @ [AnalysisSaveRejected doc]\<rparr>))"

text \<open>\<open>analysis.user_id?.toString() || "guest"\<close>\<close>

definition userId_of :: "IAnalysis \<Rightarrow> string" where
  "userId_of analysis =
     (case user_id analysis of None \<Rightarrow> ''guest'' | Some u \<Rightarrow> if u = [] then ''guest'' else u)"

text \<open>\<open>error instanceof Error ? error.message : "Unknown error"\<close>\<close>

definition error_message :: "thrown \<Rightarrow> string" where
  "error_message t = (case t of Error m \<Rightarrow> m | NonError \<Rightarrow> ''Unknown error'')"

text \<open>
  Lines 95-104: the result with the puzzle ids in place of the puzzle objects, the
  status and the completion time, all set on the document in memory.
\<close>

definition with_references ::
  "env \<Rightarrow> IAnalysis \<Rightarrow> AnalysisResultWithoutPuzzles \<Rightarrow> string list \<Rightarrow> IAnalysis" where
  "with_references e a1 resultWithoutPuzzles puzzleIds =
     (let resultWithReferences =
            AnalysisResultWithoutPuzzles.extend resultWithoutPuzzles
              (AnalysisResult.fields puzzleIds)
      in a1\<lparr>result := Some resultWithReferences, status := COMPLETED,
            completed_at := Some (now e)\<rparr>)"

text \<open>
  The body of the \<open>try\<close> block.  It returns what was thrown (\<open>None\<close> when the block ran
  to its end), the document as it stands in memory, and the world.
\<close>

definition try_block ::
  "env \<Rightarrow> string \<Rightarrow> IAnalysis \<Rightarrow> world \<Rightarrow> thrown option \<times> IAnalysis \<times> world" where
  "try_block e analysisId analysis w =
     (let a1 = analysis\<lparr>status := PROCESSING\<rparr> in
      case save (save_PROCESSING e) a1 w of
        (Some t, w1) \<Rightarrow> (Some t, a1, w1)
      | (None, w1) \<Rightarrow>
          (case analyzeGame e of
             (Inl t, called) \<Rightarrow> (Some t, a1, w1\<lparr>effects := effects w1 @ called\<rparr>)
           | (Inr (resultWithoutPuzzles, puzzleObjects), called) \<Rightarrow>
               let w2 = w1\<lparr>effects := effects w1 @ called\<rparr>;
                   userId = userId_of a1;
                   (puzzleIds, w3) =
                     (if puzzleObjects \<noteq> [] \<and> userId \<noteq> ''guest''
                      then (case savePuzzles e puzzleObjects userId analysisId w2 of
                              (Inr savedPuzzles, w') \<Rightarrow> (map puzzle_id savedPuzzles, w')
                            | (Inl t, w') \<Rightarrow> ([], w'))
                      else ([], w2));
                   a2 = with_references e a1 resultWithoutPuzzles puzzleIds
               in (case save (save_COMPLETED e) a2 w3 of (r, w4) \<Rightarrow> (r, a2, w4))))"

text \<open>The \<open>catch\<close> block; a throw of its own \<open>save\<close> leaves the function.\<close>

definition catch_block :: "env \<Rightarrow> thrown \<Rightarrow> IAnalysis \<Rightarrow> world \<Rightarrow> thrown option \<times> world" where
  "catch_block e t analysis w =
     save (save_FAILED e) (analysis\<lparr>status := FAILED, error := Some (error_message t)\<rparr>) w"

text \<open>
  \<open>processAnalysis\<close>.  The first component of the result is \<open>None\<close> when the promise
  resolves and \<open>Some t\<close> when it rejects with \<open>t\<close>.
\<close>

definition processAnalysis :: "env \<Rightarrow> string \<Rightarrow> world \<Rightarrow> thrown option \<times> world" where
  "processAnalysis e analysisId w =
     (case findOne w analysisId of
        None \<Rightarrow> (None, w)
      | Some analysis \<Rightarrow>
          if status analysis \<noteq> PENDING then (None, w)
          else
            (case try_block e analysisId analysis w of
               (None, a, w') \<Rightarrow> (None, w')
             | (Some t, a, w') \<Rightarrow> catch_block e t a w'))"

section \<open>One invocation, await by await\<close>

text \<open>
  \<open>processAnalysis\<close> is an async function: between two of its \<open>await\<close>s other
  invocations may run.  A task is the point at which an invocation waits, with the
  local variables it still needs.  One step performs one awaited operation together
  with the synchronous code next to it; that code touches local variables only, so it
  makes no difference to an interleaving which of two neighbouring steps carries it.
  Run alone, the steps give \<open>processAnalysis\<close> (lemma \<open>run_alone\<close> below).
\<close>

datatype task =
    AtFindOne
  | AtSaveProcessing IAnalysis
  | AtAnalyzeGame IAnalysis
  | AtSavePuzzles IAnalysis AnalysisResultWithoutPuzzles "ChessPuzzle list"
  | AtSaveCompleted IAnalysis
  | AtSaveFailed thrown IAnalysis
  | Done "thrown option"

fun step :: "env \<Rightarrow> string \<Rightarrow> task \<Rightarrow> world \<Rightarrow> task \<times> world" where
  "step e analysisId AtFindOne w =
     (case findOne w analysisId of
        None \<Rightarrow> (Done None, w)
      | Some analysis \<Rightarrow>
          if status analysis \<noteq> PENDING then (Done None, w)
          else (AtSaveProcessing (analysis\<lparr>status := PROCESSING\<rparr>), w))"
| "step e analysisId (AtSaveProcessing a1) w =
     (case save (save_PROCESSING e) a1 w of
        (Some t, w1) \<Rightarrow> (AtSaveFailed t a1, w1)
      | (None, w1) \<Rightarrow> (AtAnalyzeGame a1, w1))"
| "step e analysisId (AtAnalyzeGame a1) w =
     (case analyzeGame e of
        (Inl t, called) \<Rightarrow> (AtSaveFailed t a1, w\<lparr>effects := effects w @ called\<rparr>)
      | (Inr (resultWithoutPuzzles, puzzleObjects), called) \<Rightarrow>
          let w2 = w\<lparr>effects := effects w @ called\<rparr> in
          if puzzleObjects \<noteq> [] \<and> userId_of a1 \<noteq> ''guest''
          then (AtSavePuzzles a1 resultWithoutPuzzles puzzleObjects, w2)
          else (AtSaveCompleted (with_references e a1 resultWithoutPuzzles []), w2))"
| "step e analysisId (AtSavePuzzles a1 resultWithoutPuzzles puzzleObjects) w =
     (case savePuzzles e puzzleObjects (userId_of a1) analysisId w of
        (Inr savedPuzzles, w3) \<Rightarrow>
          (AtSaveCompleted
             (with_references e a1 resultWithoutPuzzles (map puzzle_id savedPuzzles)), w3)
      | (Inl t, w3) \<Rightarrow> (AtSaveCompleted (with_references e a1 resultWithoutPuzzles []), w3))"
| "step e analysisId (AtSaveCompleted a2) w =
     (case save (save_COMPLETED e) a2 w of
        (None, w4) \<Rightarrow> (Done None, w4)
      | (Some t, w4) \<Rightarrow> (AtSaveFailed t a2, w4))"
| "step e analysisId (AtSaveFailed t a) w =
     (case catch_block e t a w of (r, w') \<Rightarrow> (Done r, w'))"
| "step e analysisId (Done r) w = (Done r, w)"

text \<open>
  Two invocations for the same job id, each with its own answers from the
  collaborators, on one shared world.  The schedule says whose step comes next
  (\<open>True\<close>: the first invocation).
\<close>

fun interleave ::
  "env \<Rightarrow> env \<Rightarrow> string \<Rightarrow> bool list \<Rightarrow> task \<times> task \<times> world \<Rightarrow> task \<times> task \<times> world" where
  "interleave eA eB analysisId [] c = c"
| "interleave eA eB analysisId (True # schedule) (tA, tB, w) =
     (case step eA analysisId tA w of
        (tA', w') \<Rightarrow> interleave eA eB analysisId schedule (tA', tB, w'))"
| "interleave eA eB analysisId (False # schedule) (tA, tB, w) =
     (case step eB analysisId tB w of
        (tB', w') \<Rightarrow> interleave eA eB analysisId schedule (tA, tB', w'))"

text \<open>What the claims observe in the list of effects: the calls of the external
  service, the job documents the store accepted, in order, and the accepted writes of a
  job in a terminal state.\<close>

definition external_calls :: "effect list \<Rightarrow> nat" where
  "external_calls l = length (filter (\<lambda>x. x = GenerateTextCalled) l)"

fun analysis_writes :: "effect list \<Rightarrow> IAnalysis list" where
  "analysis_writes [] = []"
| "analysis_writes (AnalysisSaved d # l) = d # analysis_writes l"
| "analysis_writes (x # l) = analysis_writes l"

definition terminal_commits :: "effect list \<Rightarrow> nat" where
  "terminal_commits l =
     length (filter (\<lambda>x. case x of
                            AnalysisSaved d \<Rightarrow> status d = COMPLETED \<or> status d = FAILED
                          | _ \<Rightarrow> False) l)"

text \<open>
  For the proofs about interleavings.  \<open>past_call t\<close> is 1 once the invocation is
  behind its call of the reasoning client, \<open>committed t\<close> is 1 once it has resolved
  after its guard.  \<open>claimed i t w\<close>: the stored job \<open>i\<close> is no longer PENDING, and the
  invocation at \<open>t\<close> is behind its PROCESSING write and works on a document of that job.
\<close>

definition past_call :: "task \<Rightarrow> nat" where
  "past_call t =
     (case t of AtFindOne \<Rightarrow> 0 | AtSaveProcessing a \<Rightarrow> 0 | AtAnalyzeGame a \<Rightarrow> 0 | _ \<Rightarrow> 1)"

definition committed :: "task \<Rightarrow> nat" where
  "committed t = (if t = Done None then 1 else 0)"

definition claimed :: "string \<Rightarrow> task \<Rightarrow> world \<Rightarrow> bool" where
  "claimed i t w \<longleftrightarrow>
     (\<exists>j. findOne w i = Some j \<and> status j \<noteq> PENDING) \<and>
     (case t of
        AtFindOne \<Rightarrow> False
      | AtSaveProcessing a \<Rightarrow> False
      | AtAnalyzeGame a \<Rightarrow> analysis_id a = i
      | AtSavePuzzles a r ps \<Rightarrow> analysis_id a = i
      | AtSaveCompleted a \<Rightarrow> analysis_id a = i \<and> status a = COMPLETED
      | AtSaveFailed t a \<Rightarrow> analysis_id a = i
      | Done r \<Rightarrow> True)"

section \<open>The dashboard (dashboard.service.ts)\<close>

text \<open>
  \<open>Math.round\<close> rounds to the nearest integer, a half upwards.  The source divides and
  multiplies in double precision; the model computes with exact rationals, which gives
  the same integer unless the exact percentage lies within rounding error of a half.
\<close>

definition Math_round :: "rat \<Rightarrow> int" where
  "Math_round x = \<lfloor>x + 1 / 2\<rfloor>"

text \<open>The condition under which all three functions count a win.\<close>

definition is_win :: "string \<Rightarrow> PlayerColor option \<Rightarrow> bool" where
  "is_win res playerColor \<longleftrightarrow>
     (res = ''1-0'' \<and> playerColor = Some white) \<or>
     (res = ''0-1'' \<and> playerColor = Some black)"

definition calculateWinRate :: "IAnalysis list \<Rightarrow> int option" where
  "calculateWinRate analyses =
     (let completedAnalyses =
            filter (\<lambda>a. status a = COMPLETED \<and> AnalysisMetadata.result (metadata a) \<noteq> ''*'')
              analyses
      in if length completedAnalyses = 0 then None
         else
           let wins = fold (\<lambda>analysis wins.
                              if is_win (AnalysisMetadata.result (metadata analysis))
                                   (player_color analysis)
                              then wins + 1 else wins)
                           completedAnalyses (0::nat)
           in Some (Math_round (of_nat wins / of_nat (length completedAnalyses) * 100)))"

record Tally =
  wins :: nat
  losses :: nat
  draws :: nat

record OpeningStat = Tally +
  stat_opening :: string
  stat_eco :: "string option"
  count :: nat



text \<open>The three-way branch that both breakdowns apply to a tally.\<close>

definition tally_result :: "string \<Rightarrow> PlayerColor option \<Rightarrow> 'a Tally_scheme \<Rightarrow> 'a Tally_scheme" where
  "tally_result res playerColor t =
     (if res = ''1/2-1/2'' then t\<lparr>draws := draws t + 1\<rparr>
      else if is_win res playerColor then t\<lparr>wins := wins t + 1\<rparr>
      else t\<lparr>losses := losses t + 1\<rparr>)"


text \<open>The key of an entry, rebuilt from its fields as the loop built it.\<close>

definition stat_key :: "OpeningStat \<Rightarrow> string" where
  "stat_key stat =
     stat_opening stat @ ''|'' @ (case stat_eco stat of None \<Rightarrow> [] | Some x \<Rightarrow> x)"






section \<open>The extraction in the spec's words, and JSON texts\<close>



text \<open>
  \<open>JSON.parse\<close> belongs to the runtime, not to the repository.  The functions above
  take it as a parameter; to run them on a text, here is the grammar of JSON (ECMA-404):
  a value is an object, an array, a string, a number or one of three literals, with
  white space around the tokens, and nothing but white space may follow the value.
  Strings keep their escapes as written.  The recursion is bounded by a fuel that twice
  the length of the text, plus two, never exhausts on the texts used below.
\<close>

datatype json =
    JNull
  | JBool bool
  | JNumber string
  | JString string
  | JArray "json list"
  | JObject "(string \<times> json) list"

definition is_ws :: "char \<Rightarrow> bool" where
  "is_ws c \<longleftrightarrow> c = CHR '' '' \<or> c = CHR 0x09 \<or> c = CHR 0x0A \<or> c = CHR 0x0D"

definition skip_ws :: "string \<Rightarrow> string" where
  "skip_ws s = dropWhile is_ws s"

definition is_digit :: "char \<Rightarrow> bool" where
  "is_digit c \<longleftrightarrow> c \<in> set ''0123456789''"

definition is_hex :: "char \<Rightarrow> bool" where
  "is_hex c \<longleftrightarrow> c \<in> set ''0123456789abcdefABCDEF''"

text \<open>The characters of a string up to its closing quote, and the text behind it.\<close>

fun string_body :: "string \<Rightarrow> (string \<times> string) option" where
  "string_body [] = None"
| "string_body (c # cs) =
     (if c = CHR 0x22 then Some ([], cs)
      else if c = CHR 0x5C then
        (case cs of
           [] \<Rightarrow> None
         | e # cs' \<Rightarrow>
             if e \<in> set [CHR 0x22, CHR 0x5C, CHR ''/'', CHR ''b'', CHR ''f'', CHR ''n'',
                          CHR ''r'', CHR ''t'']
             then map_option (\<lambda>(s, r). (c # e # s, r)) (string_body cs')
             else if e = CHR ''u'' \<and> 4 \<le> length cs' \<and> list_all is_hex (take 4 cs')
             then map_option (\<lambda>(s, r). (c # e # take 4 cs' @ s, r)) (string_body (drop 4 cs'))
             else None)
      else if (of_char c :: nat) < 32 then None
      else map_option (\<lambda>(s, r). (c # s, r)) (string_body cs))"

text \<open>A number: an optional minus, the integer part without a leading zero, an
  optional fraction, an optional exponent.\<close>

definition digits1 :: "string \<Rightarrow> (string \<times> string) option" where
  "digits1 s =
     (let d = takeWhile is_digit s in if d = [] then None else Some (d, dropWhile is_digit s))"

definition number_token :: "string \<Rightarrow> (string \<times> string) option" where
  "number_token s =
     (let (sign, s1) = (case s of c # r \<Rightarrow> if c = CHR ''-'' then ([c], r) else ([], s) | [] \<Rightarrow> ([], s));
          int_part = (case s1 of
                        c # r \<Rightarrow> if c = CHR ''0'' then Some ([c], r) else digits1 s1
                      | [] \<Rightarrow> None)
      in case int_part of
           None \<Rightarrow> None
         | Some (i, s2) \<Rightarrow>
             let frac = (case s2 of
                           c # r \<Rightarrow> if c = CHR ''.'' then map_option (\<lambda>(d, r'). (c # d, r')) (digits1 r)
                                    else Some ([], s2)
                         | [] \<Rightarrow> Some ([], s2))
             in case frac of
                  None \<Rightarrow> None
                | Some (f, s3) \<Rightarrow>
                    let ex = (case s3 of
                                c # r \<Rightarrow>
                                  if c = CHR ''e'' \<or> c = CHR ''E'' then
                                    (case r of
                                       g # r' \<Rightarrow>
                                         if g = CHR ''+'' \<or> g = CHR ''-''
                                         then map_option (\<lambda>(d, r''). (c # g # d, r'')) (digits1 r')
                                         else map_option (\<lambda>(d, r''). (c # d, r'')) (digits1 r)
                                     | [] \<Rightarrow> None)
                                  else Some ([], s3)
                              | [] \<Rightarrow> Some ([], s3))
                    in case ex of
                         None \<Rightarrow> None
                       | Some (x, s4) \<Rightarrow> Some (sign @ i @ f @ x, s4))"

fun json_value :: "nat \<Rightarrow> string \<Rightarrow> (json \<times> string) option"
  and json_elements :: "nat \<Rightarrow> string \<Rightarrow> (json list \<times> string) option"
  and json_members :: "nat \<Rightarrow> string \<Rightarrow> ((string \<times> json) list \<times> string) option" where
  "json_value 0 s = None"
| "json_value (Suc n) s =
     (case skip_ws s of
        [] \<Rightarrow> None
      | c # cs \<Rightarrow>
          if c = CHR ''{'' then
            (case skip_ws cs of
               [] \<Rightarrow> None
             | d # r \<Rightarrow> if d = CHR ''}'' then Some (JObject [], r)
                        else map_option (\<lambda>(ms, r'). (JObject ms, r')) (json_members n cs))
          else if c = CHR ''['' then
            (case skip_ws cs of
               [] \<Rightarrow> None
             | d # r \<Rightarrow> if d = CHR '']'' then Some (JArray [], r)
                        else map_option (\<lambda>(vs, r'). (JArray vs, r')) (json_elements n cs))
          else if c = CHR 0x22 then map_option (\<lambda>(str, r). (JString str, r)) (string_body cs)
          else if take 4 (c # cs) = ''true'' then Some (JBool True, drop 4 (c # cs))
          else if take 5 (c # cs) = ''false'' then Some (JBool False, drop 5 (c # cs))
          else if take 4 (c # cs) = ''null'' then Some (JNull, drop 4 (c # cs))
          else map_option (\<lambda>(num, r). (JNumber num, r)) (number_token (c # cs)))"
| "json_elements 0 s = None"
| "json_elements (Suc n) s =
     (case json_value n s of
        None \<Rightarrow> None
      | Some (v, r) \<Rightarrow>
          (case skip_ws r of
             [] \<Rightarrow> None
           | c # r' \<Rightarrow>
               if c = CHR '','' then map_option (\<lambda>(vs, r''). (v # vs, r'')) (json_elements n r')
               else if c = CHR '']'' then Some ([v], r')
               else None))"
| "json_members 0 s = None"
| "json_members (Suc n) s =
     (case skip_ws s of
        [] \<Rightarrow> None
      | q # cs \<Rightarrow>
          if q \<noteq> CHR 0x22 then None
          else
            (case string_body cs of
               None \<Rightarrow> None
             | Some (k, r) \<Rightarrow>
                 (case skip_ws r of
                    [] \<Rightarrow> None
                  | c # r' \<Rightarrow>
                      if c \<noteq> CHR '':'' then None
                      else
                        (case json_value n r' of
                           None \<Rightarrow> None
                         | Some (v, r'') \<Rightarrow>
                             (case skip_ws r'' of
                                [] \<Rightarrow> None
                              | d # r''' \<Rightarrow>
                                  if d = CHR '','' then
                                    map_option (\<lambda>(ms, t). ((k, v) # ms, t)) (json_members n r''')
                                  else if d = CHR ''}'' then Some ([(k, v)], r''')
                                  else None)))))"


section \<open>Sample values\<close>

definition sample_job :: IAnalysis where
  "sample_job =
     \<lparr> analysis_id = ''a1'', user_id = Some ''u1'', status = PENDING, pgn = ''1. e4 e5'',
       player_name = ''Ann'', player_color = Some white,
       metadata = \<lparr> white_name = ''Ann'', black_name = ''Bob'', result = ''1-0'',
                    event = None, date = None, eco = Some ''C20'',
                    opening_name = Some ''Kings Pawn'' \<rparr>,
       result = None, error = None, completed_at = None \<rparr>"

definition sample_puzzle :: ChessPuzzle where
  "sample_puzzle =
     \<lparr> title = ''Fork'', description = ''Win the queen'', fen = ''8/8/8/8/8/8/8/8 w - - 0 1'',
       solution = ''Nc7+'', hint = None, difficulty = easy, theme = ''Fork'' \<rparr>"

definition sample_gemini :: GeminiAnalysisResult where
  "sample_gemini =
     \<lparr> summary = ''A short game'', phases = [], key_moments = [],
       recommendations = [''Castle early''], gemini_puzzles = Some [sample_puzzle] \<rparr>"

text \<open>The same analysis as the service writes it, with commentary around it.\<close>

definition sample_payload :: string where
  \<open>sample_payload =
     ''{"summary": "A short game", "phases": [], "key_moments": [], '' @
     ''"recommendations": ["Castle early"], '' @
     ''"puzzles": [{"title": "Fork", "description": "Win the queen", '' @
     ''"fen": "8/8/8/8/8/8/8/8 w - - 0 1", "solution": "Nc7+", '' @
     ''"difficulty": "easy", "theme": "Fork"}]}''\<close>

definition sample_text :: string where
  "sample_text = ''Here is the analysis: '' @ sample_payload @ '' Good luck''"

text \<open>An environment in which every collaborator answers well.\<close>

definition sample_env :: env where
  "sample_env =
     \<lparr> api_key = Some ''key'',
       generateText = Inr sample_text,
       JSON_parse = (\<lambda>s. if s = sample_payload then Inr sample_gemini
                         else Inl (Error ''Unexpected token in JSON'')),
       save_PROCESSING = None, save_COMPLETED = None, save_FAILED = None,
       puzzle_write = None,
       new_puzzle_id = (\<lambda>n. ''p'' @ replicate n (CHR ''i'')),
       now = 7 \<rparr>"

definition sample_world :: world where
  "sample_world = \<lparr> Analysis = [sample_job], Puzzle = [], effects = [] \<rparr>"

text \<open>The same world with the job submitted by a guest.\<close>

definition guest_world :: world where
  "guest_world = sample_world\<lparr>Analysis := [sample_job\<lparr>user_id := None\<rparr>]\<rparr>"

text \<open>The service answers without any JSON object.\<close>

definition env_no_json :: env where
  "env_no_json = sample_env\<lparr>generateText := Inr ''I cannot analyse this game.''\<rparr>"

text \<open>The puzzle collection rejects the batch.\<close>

definition env_puzzles_rejected :: env where
  "env_puzzles_rejected = sample_env\<lparr>puzzle_write := Some (Error ''puzzle store down'')\<rparr>"

text \<open>The store rejects the COMPLETED write of the job and accepts the next write.\<close>

definition env_commit_rejected :: env where
  "env_commit_rejected = sample_env\<lparr>save_COMPLETED := Some (Error ''write failed'')\<rparr>"


text \<open>Completed games of the sample player with a given colour and recorded result.\<close>

definition game :: "PlayerColor option \<Rightarrow> string \<Rightarrow> IAnalysis" where
  "game c r =
     sample_job\<lparr>status := COMPLETED, player_color := c,
                metadata := (metadata sample_job)\<lparr>AnalysisMetadata.result := r\<rparr>\<rparr>"

definition three_games :: "IAnalysis list" where
  "three_games = [game (Some white) ''1-0'', game (Some white) ''0-1'', game (Some white) ''1/2-1/2'']"


section \<open>Facts about the store and the list of effects\<close>

lemma findOne_id: "findOne w i = Some a \<Longrightarrow> analysis_id a = i"
  by (auto simp: findOne_def find_Some_iff)

lemma find_replace:
  "find (\<lambda>a. analysis_id a = i) xs = Some a \<Longrightarrow> analysis_id d = i \<Longrightarrow>
   find (\<lambda>a. analysis_id a = i) (map (\<lambda>x. if analysis_id x = i then d else x) xs) = Some d"
  by (induction xs) (auto split: if_splits)

lemma findOne_save_accepted:
  "findOne w i = Some a \<Longrightarrow> analysis_id d = i \<Longrightarrow> findOne (snd (save None d w)) i = Some d"
  by (simp add: findOne_def save_def find_replace)

lemma analysis_writes_append [simp]:
  "analysis_writes (xs @ ys) = analysis_writes xs @ analysis_writes ys"
  by (induction xs rule: analysis_writes.induct) simp_all

lemma analyzeGame_effects: "analysis_writes (snd (analyzeGame e)) = []"
  by (simp add: analyzeGame_def Let_def split: sum.splits)

lemma sample_find: "findOne sample_world ''a1'' = Some sample_job"
  by (simp add: findOne_def sample_world_def sample_job_def)

lemma no_json_fails:
  "analyzeGame env_no_json =
     (Inl (Error ''Failed to parse JSON from Gemini response''), [GenerateTextCalled])"
  by (simp add: analyzeGame_def env_no_json_def sample_env_def parseResponse_def jsonMatch_def)

lemma sample_match: "jsonMatch sample_text = Some sample_payload"
  by (simp add: jsonMatch_def sample_text_def sample_payload_def)

lemma sample_ok:
  "analyzeGame sample_env =
     (Inr (omit_puzzles sample_gemini, [sample_puzzle]), [GenerateTextCalled])"
  by (simp add: analyzeGame_def sample_env_def parseResponse_def sample_match sample_gemini_def)

lemma analyzeGame_store_answers [simp]:
  "analyzeGame (e\<lparr>save_PROCESSING := a\<rparr>) = analyzeGame e"
  "analyzeGame (e\<lparr>save_COMPLETED := a\<rparr>) = analyzeGame e"
  "analyzeGame (e\<lparr>save_FAILED := a\<rparr>) = analyzeGame e"
  "analyzeGame (e\<lparr>puzzle_write := a\<rparr>) = analyzeGame e"
  by (simp_all add: analyzeGame_def cong: sum.case_cong)

lemma puzzles_rejected_ok:
  "analyzeGame env_puzzles_rejected =
     (Inr (omit_puzzles sample_gemini, [sample_puzzle]), [GenerateTextCalled])"
  by (simp add: env_puzzles_rejected_def sample_ok)

lemma Puzzle_save [simp]: "Puzzle (snd (save r d w)) = Puzzle w"
  by (simp add: save_def split: option.splits)

lemma truncate_docs:
  "map ChessPuzzle.truncate
     (map (\<lambda>(i, p). ChessPuzzle.extend p (IPuzzle.fields (f i) u a)) (enumerate n ps)) = ps"
  by (induction ps arbitrary: n)
     (simp_all add: ChessPuzzle.truncate_def ChessPuzzle.extend_def)

lemma ids_docs:
  "map puzzle_id
     (map (\<lambda>(i, p). ChessPuzzle.extend p (IPuzzle.fields (f (k + i)) u a)) (enumerate n ps)) =
   map f [k + n..<k + n + length ps]"
proof (induction ps arbitrary: n)
  case Nil
  then show ?case by simp
next
  case (Cons p ps)
  have "[k + n..<k + n + length (p # ps)] = (k + n) # [k + Suc n..<k + Suc n + length ps]"
    by (simp add: upt_rec)
  then show ?case
    using Cons.IH [of "Suc n"]
    by (simp add: ChessPuzzle.extend_def IPuzzle.fields_def)
qed

lemma Puzzle_guest:
  "userId_of analysis = ''guest'' \<Longrightarrow>
   Puzzle (snd (snd (try_block e analysisId analysis w))) = Puzzle w"
  by (simp add: try_block_def Let_def userId_of_def save_def
           split: option.splits sum.splits prod.splits)

lemma commit_rejected_ok:
  "analyzeGame env_commit_rejected =
     (Inr (omit_puzzles sample_gemini, [sample_puzzle]), [GenerateTextCalled])"
  by (simp add: env_commit_rejected_def sample_ok)

lemma commit_rejected_run:
  "processAnalysis env_commit_rejected ''a1'' sample_world =
     (None,
      \<lparr> Analysis =
          [with_references sample_env (sample_job\<lparr>status := PROCESSING\<rparr>)
             (omit_puzzles sample_gemini) [''p'']
           \<lparr>status := FAILED, error := Some ''write failed''\<rparr>],
        Puzzle =
          [ChessPuzzle.extend sample_puzzle (IPuzzle.fields ''p'' ''u1'' (Some ''a1''))],
        effects =
          [AnalysisSaved (sample_job\<lparr>status := PROCESSING\<rparr>),
           GenerateTextCalled,
           PuzzlesSaved [ChessPuzzle.extend sample_puzzle (IPuzzle.fields ''p'' ''u1'' (Some ''a1''))],
           AnalysisSaveRejected
             (with_references sample_env (sample_job\<lparr>status := PROCESSING\<rparr>)
                (omit_puzzles sample_gemini) [''p'']),
           AnalysisSaved
             (with_references sample_env (sample_job\<lparr>status := PROCESSING\<rparr>)
                (omit_puzzles sample_gemini) [''p'']
              \<lparr>status := FAILED, error := Some ''write failed''\<rparr>)] \<rparr>)"
proof -
  have e: "save_PROCESSING env_commit_rejected = None"
    "save_COMPLETED env_commit_rejected = Some (Error ''write failed'')"
    "save_FAILED env_commit_rejected = None"
    "puzzle_write env_commit_rejected = None"
    "new_puzzle_id env_commit_rejected 0 = ''p''"
    "now env_commit_rejected = now sample_env"
    by (simp_all add: env_commit_rejected_def sample_env_def)
  have u: "userId_of (sample_job\<lparr>status := PROCESSING\<rparr>) = ''u1''"
    by (simp add: userId_of_def sample_job_def)
  have i: "analysis_id sample_job = ''a1''"
    by (simp add: sample_job_def)
  have st: "status sample_job = PENDING"
    by (simp add: sample_job_def)
  show ?thesis
    by (simp add: processAnalysis_def sample_find st)
       (simp add: try_block_def commit_rejected_ok e u i
          save_def savePuzzles_def catch_block_def error_message_def Let_def
          with_references_def sample_world_def ChessPuzzle.extend_def IPuzzle.fields_def)
qed

section \<open>Facts about the dashboard\<close>

lemma fold_count_wins:
  "fold (\<lambda>a n. if P a then n + 1 else n) xs (k::nat) = k + length (filter P xs)"
  by (induction xs arbitrary: k) simp_all

lemma count_results:
  "Multiset.count (mset (map f xs)) v = length (filter (\<lambda>a. f a = v) xs)"
  by (induction xs) simp_all

lemma Math_round_third: "Math_round (1 / 3 * 100) = 33"
  by (simp add: Math_round_def floor_eq_iff)

lemma calculateWinRate_eq:
  "calculateWinRate analyses =
     (let cs = filter (\<lambda>a. status a = COMPLETED \<and> AnalysisMetadata.result (metadata a) \<noteq> ''*'') analyses
      in if cs = [] then None
         else Some (Math_round (of_nat (length (filter (\<lambda>a. is_win (AnalysisMetadata.result (metadata a)) (player_color a)) cs))
                      / of_nat (length cs) * 100)))"
  by (simp add: calculateWinRate_def Let_def fold_count_wins)





lemma stat_key_tally [simp]: "stat_key (tally_result r c s) = stat_key s"
  by (simp add: tally_result_def stat_key_def)

lemma stat_key_count [simp]: "stat_key (s\<lparr>count := n\<rparr>) = stat_key s"
  by (simp add: stat_key_def)






section \<open>Facts about the extraction\<close>






section \<open>Facts about interleavings\<close>

lemma findOne_effects [simp]: "findOne (w\<lparr>effects := x\<rparr>) i = findOne w i"
  by (simp add: findOne_def)

lemma findOne_Puzzle [simp]: "findOne (w\<lparr>Puzzle := x\<rparr>) i = findOne w i"
  by (simp add: findOne_def)

lemma findOne_savePuzzles [simp]: "findOne (snd (savePuzzles e ps u a w)) i = findOne w i"
  by (simp add: savePuzzles_def Let_def split: option.splits)

lemma findOne_save_rejected [simp]: "findOne (snd (save (Some t) d w)) i = findOne w i"
  by (simp add: save_def)

lemma external_calls_append [simp]:
  "external_calls (xs @ ys) = external_calls xs + external_calls ys"
  by (simp add: external_calls_def)

lemma terminal_commits_append [simp]:
  "terminal_commits (xs @ ys) = terminal_commits xs + terminal_commits ys"
  by (simp add: terminal_commits_def)

lemma analyzeGame_calls:
  "external_calls (snd (analyzeGame e)) \<le> 1 \<and>
   (api_key e \<noteq> None \<and> api_key e \<noteq> Some [] \<longrightarrow> external_calls (snd (analyzeGame e)) = 1) \<and>
   terminal_commits (snd (analyzeGame e)) = 0"
  by (simp add: analyzeGame_def external_calls_def terminal_commits_def Let_def split: sum.splits)

lemma save_counts:
  "external_calls (effects (snd (save r d w))) = external_calls (effects w) \<and>
   terminal_commits (effects (snd (save r d w))) =
     terminal_commits (effects w) +
     (if r = None \<and> (status d = COMPLETED \<or> status d = FAILED) then 1 else 0)"
  by (simp add: save_def external_calls_def terminal_commits_def split: option.splits)

lemma savePuzzles_counts:
  "external_calls (effects (snd (savePuzzles e ps u a w))) = external_calls (effects w) \<and>
   terminal_commits (effects (snd (savePuzzles e ps u a w))) = terminal_commits (effects w)"
  by (simp add: savePuzzles_def external_calls_def terminal_commits_def Let_def split: option.splits)

lemma findOne_save_any:
  "findOne w i = Some j \<Longrightarrow> analysis_id d = i \<Longrightarrow>
   findOne (snd (save r d w)) i = Some (if r = None then d else j)"
  by (cases r) (simp_all add: findOne_save_accepted)

lemma step_claimed:
  assumes "claimed i t w" and "step e i t w = (t', w')"
  shows "claimed i t' w' \<and>
         external_calls (effects w') + past_call t \<le> external_calls (effects w) + past_call t' \<and>
         (api_key e \<noteq> None \<and> api_key e \<noteq> Some [] \<longrightarrow>
            external_calls (effects w') + past_call t = external_calls (effects w) + past_call t') \<and>
         terminal_commits (effects w') + committed t = terminal_commits (effects w) + committed t'"
proof -
  obtain j where j: "findOne w i = Some j" "status j \<noteq> PENDING"
    using assms(1) by (auto simp: claimed_def)
  show ?thesis
  proof (cases t)
    case AtFindOne
    then show ?thesis using assms(1) by (simp add: claimed_def)
  next
    case (AtSaveProcessing a)
    then show ?thesis using assms(1) by (simp add: claimed_def)
  next
    case (AtAnalyzeGame a)
    obtain res called where ag: "analyzeGame e = (res, called)"
      by (cases "analyzeGame e")
    have c: "external_calls called \<le> 1" "terminal_commits called = 0"
      "api_key e \<noteq> None \<and> api_key e \<noteq> Some [] \<longrightarrow> external_calls called = 1"
      using analyzeGame_calls [of e] ag by simp_all
    show ?thesis
      using assms AtAnalyzeGame ag c j
      by (auto simp: claimed_def past_call_def committed_def with_references_def Let_def
               split: sum.splits prod.splits if_splits)
  next
    case (AtSavePuzzles a r ps)
    obtain res w3 where sp: "savePuzzles e ps (userId_of a) i w = (res, w3)"
      by (cases "savePuzzles e ps (userId_of a) i w")
    have f: "findOne w3 i = findOne w i"
      using findOne_savePuzzles [of e ps "userId_of a" i w i] sp by simp
    have c: "external_calls (effects w3) = external_calls (effects w)"
      "terminal_commits (effects w3) = terminal_commits (effects w)"
      using savePuzzles_counts [of e ps "userId_of a" i w] sp by simp_all
    show ?thesis
      using assms AtSavePuzzles sp f c j
      by (auto simp: claimed_def past_call_def committed_def with_references_def
               split: sum.splits)
  next
    case (AtSaveCompleted a)
    obtain r w4 where sv: "save (save_COMPLETED e) a w = (r, w4)"
      by (cases "save (save_COMPLETED e) a w")
    have r: "r = save_COMPLETED e"
      using sv by (simp add: save_def split: option.splits)
    have a: "analysis_id a = i" "status a = COMPLETED"
      using assms(1) AtSaveCompleted by (simp_all add: claimed_def)
    have f: "findOne w4 i = Some (if r = None then a else j)"
      using findOne_save_any [OF j(1) a(1), of "save_COMPLETED e"] sv r by simp
    have c: "external_calls (effects w4) = external_calls (effects w)"
      "terminal_commits (effects w4) = terminal_commits (effects w) + (if r = None then 1 else 0)"
      using save_counts [of "save_COMPLETED e" a w] sv r a by simp_all
    show ?thesis
      using assms(2) AtSaveCompleted sv f c j a
      by (auto simp: claimed_def past_call_def committed_def split: option.splits)
  next
    case (AtSaveFailed x a)
    let ?af = "a\<lparr>status := FAILED, error := Some (error_message x)\<rparr>"
    obtain r w5 where sv: "save (save_FAILED e) ?af w = (r, w5)"
      by (cases "save (save_FAILED e) ?af w")
    have r: "r = save_FAILED e"
      using sv by (simp add: save_def split: option.splits)
    have a: "analysis_id ?af = i"
      using assms(1) AtSaveFailed by (simp add: claimed_def)
    have f: "findOne w5 i = Some (if r = None then ?af else j)"
      using findOne_save_any [OF j(1) a, of "save_FAILED e"] sv r by simp
    have c: "external_calls (effects w5) = external_calls (effects w)"
      "terminal_commits (effects w5) = terminal_commits (effects w) + (if r = None then 1 else 0)"
      using save_counts [of "save_FAILED e" ?af w] sv r by simp_all
    show ?thesis
      using assms(2) AtSaveFailed sv f c j r
      by (auto simp: claimed_def past_call_def committed_def catch_block_def)
  next
    case (Done r)
    then show ?thesis using assms by auto
  qed
qed

lemma step_after_claim:
  assumes "findOne w i = Some j" and "status j \<noteq> PENDING"
      and "t = AtFindOne \<or> t = Done None"
  shows "step e i t w = (Done None, w)"
  using assms by auto

lemma interleave_claimed:
  assumes "claimed i tA w" and "tB = AtFindOne \<or> tB = Done None"
      and "interleave eA eB i schedule (tA, tB, w) = (tA', tB', w')"
  shows "(tB' = AtFindOne \<or> tB' = Done None) \<and>
         external_calls (effects w') + past_call tA \<le> external_calls (effects w) + past_call tA' \<and>
         (api_key eA \<noteq> None \<and> api_key eA \<noteq> Some [] \<longrightarrow>
            external_calls (effects w') + past_call tA = external_calls (effects w) + past_call tA') \<and>
         terminal_commits (effects w') + committed tA = terminal_commits (effects w) + committed tA'"
  using assms
proof (induction schedule arbitrary: tA tB w)
  case Nil
  then show ?case by simp
next
  case (Cons b schedule)
  show ?case
  proof (cases b)
    case True
    obtain t1 w1 where s: "step eA i tA w = (t1, w1)"
      by (cases "step eA i tA w")
    have 1: "claimed i t1 w1"
      "external_calls (effects w1) + past_call tA \<le> external_calls (effects w) + past_call t1"
      "api_key eA \<noteq> None \<and> api_key eA \<noteq> Some [] \<longrightarrow>
         external_calls (effects w1) + past_call tA = external_calls (effects w) + past_call t1"
      "terminal_commits (effects w1) + committed tA = terminal_commits (effects w) + committed t1"
      using step_claimed [OF Cons.prems(1) s] by simp_all
    have r: "interleave eA eB i schedule (t1, tB, w1) = (tA', tB', w')"
      using Cons.prems(3) True s by simp
    have 2: "(tB' = AtFindOne \<or> tB' = Done None)"
      "external_calls (effects w') + past_call t1 \<le> external_calls (effects w1) + past_call tA'"
      "api_key eA \<noteq> None \<and> api_key eA \<noteq> Some [] \<longrightarrow>
         external_calls (effects w') + past_call t1 = external_calls (effects w1) + past_call tA'"
      "terminal_commits (effects w') + committed t1 = terminal_commits (effects w1) + committed tA'"
      using Cons.IH [OF 1(1) Cons.prems(2) r] by simp_all
    show ?thesis
      using 1 2 by auto
  next
    case False
    obtain j where j: "findOne w i = Some j" "status j \<noteq> PENDING"
      using Cons.prems(1) by (auto simp: claimed_def)
    have s: "step eB i tB w = (Done None, w)"
      using step_after_claim [OF j Cons.prems(2)] .
    have r: "interleave eA eB i schedule (tA, Done None, w) = (tA', tB', w')"
      using Cons.prems(3) False s by simp
    show ?thesis
      using Cons.IH [OF Cons.prems(1) _ r] by simp
  qed
qed

lemma run_alone:
  "interleave e eB i (replicate 6 True) (AtFindOne, tB, w) =
     (Done (fst (processAnalysis e i w)), tB, snd (processAnalysis e i w))"
proof -
  have six: "replicate 6 True = [True, True, True, True, True, True]"
    by (simp add: numeral_eq_Suc)
  show ?thesis
    unfolding six
    by (cases "analyzeGame e")
       (auto simp: processAnalysis_def try_block_def catch_block_def Let_def save_def
                   savePuzzles_def
             split: option.splits sum.splits prod.splits)
qed

lemma sample_env_answers:
  "save_PROCESSING sample_env = None" "save_COMPLETED sample_env = None"
  "save_FAILED sample_env = None" "puzzle_write sample_env = None"
  "new_puzzle_id sample_env n = ''p'' @ replicate n (CHR ''i'')" "now sample_env = 7"
  by (simp_all add: sample_env_def)

lemma sample_job_fields:
  "analysis_id sample_job = ''a1''" "status sample_job = PENDING"
  "userId_of (sample_job\<lparr>status := PROCESSING\<rparr>) = ''u1''"
  by (simp_all add: sample_job_def userId_of_def)

lemma overlapping_run:
  "interleave sample_env sample_env ''a1''
     [True, False, True, False, True, False, True, False, True, False]
     (AtFindOne, AtFindOne, sample_world) =
   (Done None, Done None,
    \<lparr> Analysis = [with_references sample_env (sample_job\<lparr>status := PROCESSING\<rparr>)
                    (omit_puzzles sample_gemini) [''pi'']],
      Puzzle = [ChessPuzzle.extend sample_puzzle (IPuzzle.fields ''p'' ''u1'' (Some ''a1'')),
                ChessPuzzle.extend sample_puzzle (IPuzzle.fields ''pi'' ''u1'' (Some ''a1''))],
      effects =
        [AnalysisSaved (sample_job\<lparr>status := PROCESSING\<rparr>),
         AnalysisSaved (sample_job\<lparr>status := PROCESSING\<rparr>),
         GenerateTextCalled,
         GenerateTextCalled,
         PuzzlesSaved [ChessPuzzle.extend sample_puzzle (IPuzzle.fields ''p'' ''u1'' (Some ''a1''))],
         PuzzlesSaved [ChessPuzzle.extend sample_puzzle (IPuzzle.fields ''pi'' ''u1'' (Some ''a1''))],
         AnalysisSaved (with_references sample_env (sample_job\<lparr>status := PROCESSING\<rparr>)
                          (omit_puzzles sample_gemini) [''p'']),
         AnalysisSaved (with_references sample_env (sample_job\<lparr>status := PROCESSING\<rparr>)
                          (omit_puzzles sample_gemini) [''pi''])] \<rparr>)"
  by (simp add: sample_job_fields sample_env_answers sample_ok save_def
        savePuzzles_def Let_def sample_world_def with_references_def findOne_def
        ChessPuzzle.extend_def IPuzzle.fields_def)

lemma claimed_run:
  "interleave sample_env sample_env ''a1''
     [True, True, False, True, False, True, True, False]
     (AtFindOne, AtFindOne, sample_world) =
   (Done None, Done None,
    \<lparr> Analysis = [with_references sample_env (sample_job\<lparr>status := PROCESSING\<rparr>)
                    (omit_puzzles sample_gemini) [''p'']],
      Puzzle = [ChessPuzzle.extend sample_puzzle (IPuzzle.fields ''p'' ''u1'' (Some ''a1''))],
      effects =
        [AnalysisSaved (sample_job\<lparr>status := PROCESSING\<rparr>),
         GenerateTextCalled,
         PuzzlesSaved [ChessPuzzle.extend sample_puzzle (IPuzzle.fields ''p'' ''u1'' (Some ''a1''))],
         AnalysisSaved (with_references sample_env (sample_job\<lparr>status := PROCESSING\<rparr>)
                          (omit_puzzles sample_gemini) [''p''])] \<rparr>)"
  by (simp add: sample_job_fields sample_env_answers sample_ok save_def
        savePuzzles_def Let_def sample_world_def with_references_def findOne_def
        ChessPuzzle.extend_def IPuzzle.fields_def)

section \<open>The job processor\<close>

text \<open>
  C2.  Invoking \<open>processAnalysis\<close> on a job whose status is not PENDING is a no-op: the
  promise resolves, and the world -- the stored records, the puzzle collection and the
  list of store writes and external calls -- is the one before the call.
\<close>

theorem processAnalysis_not_pending_noop:
  assumes "findOne w analysisId = Some analysis"
      and "status analysis \<noteq> PENDING"
  shows "processAnalysis e analysisId w = (None, w)"
  using assms by (simp add: processAnalysis_def)

theorem processAnalysis_not_pending_noop_witness:
  "processAnalysis sample_env ''a1'' (sample_world\<lparr>Analysis := [sample_job\<lparr>status := COMPLETED\<rparr>]\<rparr>)
     = (None, sample_world\<lparr>Analysis := [sample_job\<lparr>status := COMPLETED\<rparr>]\<rparr>)"
  using processAnalysis_not_pending_noop
          [of "sample_world\<lparr>Analysis := [sample_job\<lparr>status := COMPLETED\<rparr>]\<rparr>" "''a1''"
              "sample_job\<lparr>status := COMPLETED\<rparr>" sample_env]
  by (simp add: findOne_def sample_world_def sample_job_def)

text \<open>
  C4.  For a PENDING job whose PROCESSING write was accepted, if the reasoning client
  fails with \<open>t\<close> (an error of the external service or of parsing its answer), the
  next and last write of the invocation is the loaded job with status FAILED and the
  message of \<open>t\<close> as error, its \<open>completed_at\<close> as it was.  The promise settles as that
  write does; the job documents the store has accepted are the PROCESSING one and, if
  the store takes it, the FAILED one -- none with status COMPLETED --, and the stored
  job is the last of them.
\<close>

theorem processAnalysis_reasoning_failure:
  assumes "findOne w analysisId = Some analysis"
      and "status analysis = PENDING"
      and "save_PROCESSING e = None"
      and "fst (analyzeGame e) = Inl t"
  shows "fst (processAnalysis e analysisId w) = save_FAILED e \<and>
         analysis_writes (effects (snd (processAnalysis e analysisId w))) =
           analysis_writes (effects w) @
             analysis\<lparr>status := PROCESSING\<rparr> #
             (if save_FAILED e = None
              then [analysis\<lparr>status := FAILED, error := Some (error_message t)\<rparr>] else []) \<and>
         findOne (snd (processAnalysis e analysisId w)) analysisId =
           Some (if save_FAILED e = None
                 then analysis\<lparr>status := FAILED, error := Some (error_message t)\<rparr>
                 else analysis\<lparr>status := PROCESSING\<rparr>) \<and>
         completed_at (analysis\<lparr>status := FAILED, error := Some (error_message t)\<rparr>) =
           completed_at analysis"
proof -
  obtain called where ag: "analyzeGame e = (Inl t, called)"
    using assms(4) by (cases "analyzeGame e") auto
  have aw: "analysis_writes called = []"
    using analyzeGame_effects [of e] ag by simp
  have id: "analysis_id analysis = analysisId"
    using assms(1) by (rule findOne_id)
  let ?a1 = "analysis\<lparr>status := PROCESSING\<rparr>"
  let ?af = "analysis\<lparr>status := FAILED, error := Some (error_message t)\<rparr>"
  let ?w1 = "snd (save None ?a1 w)"
  let ?w2 = "?w1\<lparr>effects := effects ?w1 @ called\<rparr>"
  have run: "processAnalysis e analysisId w = save (save_FAILED e) ?af ?w2"
    using assms ag
    by (simp add: processAnalysis_def try_block_def catch_block_def save_def Let_def)
  have f1: "findOne ?w1 analysisId = Some ?a1"
    using assms(1) id by (simp add: findOne_save_accepted)
  have f2: "findOne ?w2 analysisId = Some ?a1"
    using f1 by (simp add: findOne_def)
  have f3: "findOne (snd (save (save_FAILED e) ?af ?w2)) analysisId =
              Some (if save_FAILED e = None then ?af else ?a1)"
    using f2 id by (simp add: findOne_save_any)
  have o: "fst (save (save_FAILED e) ?af ?w2) = save_FAILED e"
    by (simp add: save_def split: option.splits)
  have l: "analysis_writes (effects (snd (save (save_FAILED e) ?af ?w2))) =
             analysis_writes (effects w) @ ?a1 # (if save_FAILED e = None then [?af] else [])"
    using aw by (simp add: save_def split: option.splits)
  show ?thesis
    unfolding run using o l f3 by simp
qed

theorem processAnalysis_reasoning_failure_witness:
  "findOne sample_world ''a1'' = Some sample_job \<and> status sample_job = PENDING \<and>
   save_PROCESSING env_no_json = None \<and>
   fst (analyzeGame env_no_json) = Inl (Error ''Failed to parse JSON from Gemini response'') \<and>
   save_FAILED env_no_json = None \<and>
   fst (processAnalysis env_no_json ''a1'' sample_world) = None \<and>
   findOne (snd (processAnalysis env_no_json ''a1'' sample_world)) ''a1'' =
     Some (sample_job\<lparr>status := FAILED,
                       error := Some ''Failed to parse JSON from Gemini response''\<rparr>)"
proof -
  have h: "findOne sample_world ''a1'' = Some sample_job" "status sample_job = PENDING"
    "save_PROCESSING env_no_json = None"
    "fst (analyzeGame env_no_json) = Inl (Error ''Failed to parse JSON from Gemini response'')"
    by (simp_all add: sample_find no_json_fails)
       (simp_all add: sample_job_def env_no_json_def sample_env_def)
  have k: "save_FAILED env_no_json = None"
    by (simp add: env_no_json_def sample_env_def)
  show ?thesis
    using h k processAnalysis_reasoning_failure [OF h]
    by (simp add: error_message_def)
qed

text \<open>
  C5.  For a PENDING job of an authenticated owner whose PROCESSING write was accepted
  and whose analysis succeeded with candidates, a rejected write of the puzzle batch is
  absorbed: when the store accepts the COMPLETED write, the invocation resolves, the
  stored job has status COMPLETED and a result with the empty list of puzzle ids, the
  job documents written are the PROCESSING one and then the COMPLETED one -- none with
  status FAILED.
\<close>

theorem processAnalysis_puzzle_failure_absorbed:
  assumes "findOne w analysisId = Some analysis"
      and "status analysis = PENDING"
      and "save_PROCESSING e = None"
      and "fst (analyzeGame e) = Inr (r, candidates)"
      and "candidates \<noteq> []"
      and "userId_of analysis \<noteq> ''guest''"
      and "puzzle_write e = Some t"
      and "save_COMPLETED e = None"
  shows "fst (processAnalysis e analysisId w) = None \<and>
         findOne (snd (processAnalysis e analysisId w)) analysisId =
           Some (analysis\<lparr>result := Some (AnalysisResultWithoutPuzzles.extend r
                                            (AnalysisResult.fields [])),
                          status := COMPLETED, completed_at := Some (now e)\<rparr>) \<and>
         analysis_writes (effects (snd (processAnalysis e analysisId w))) =
           analysis_writes (effects w) @
             [analysis\<lparr>status := PROCESSING\<rparr>,
              analysis\<lparr>result := Some (AnalysisResultWithoutPuzzles.extend r
                                      (AnalysisResult.fields [])),
                       status := COMPLETED, completed_at := Some (now e)\<rparr>]"
proof -
  obtain called where ag: "analyzeGame e = (Inr (r, candidates), called)"
    using assms(4) by (cases "analyzeGame e") auto
  have aw: "analysis_writes called = []"
    using analyzeGame_effects [of e] ag by simp
  have id: "analysis_id analysis = analysisId"
    using assms(1) by (rule findOne_id)
  let ?a1 = "analysis\<lparr>status := PROCESSING\<rparr>"
  let ?a2 = "with_references e ?a1 r []"
  let ?w1 = "snd (save None ?a1 w)"
  let ?w3 = "?w1\<lparr>effects := effects ?w1 @ called @ [PuzzlesSaveRejected]\<rparr>"
  have run: "processAnalysis e analysisId w = save None ?a2 ?w3"
    using assms ag
    by (simp add: processAnalysis_def try_block_def savePuzzles_def save_def Let_def userId_of_def)
  have f1: "findOne ?w1 analysisId = Some ?a1"
    using assms(1) id by (simp add: findOne_save_accepted)
  have f2: "findOne ?w3 analysisId = Some ?a1"
    using f1 by (simp add: findOne_def)
  have f3: "findOne (snd (save None ?a2 ?w3)) analysisId = Some ?a2"
    using f2 id by (simp add: findOne_save_accepted with_references_def)
  show ?thesis
    using run f3 aw by (simp add: save_def with_references_def)
qed

theorem processAnalysis_puzzle_failure_absorbed_witness:
  "findOne sample_world ''a1'' = Some sample_job \<and> status sample_job = PENDING \<and>
   save_PROCESSING env_puzzles_rejected = None \<and>
   fst (analyzeGame env_puzzles_rejected) = Inr (omit_puzzles sample_gemini, [sample_puzzle]) \<and>
   [sample_puzzle] \<noteq> [] \<and> userId_of sample_job \<noteq> ''guest'' \<and>
   puzzle_write env_puzzles_rejected = Some (Error ''puzzle store down'') \<and>
   save_COMPLETED env_puzzles_rejected = None \<and>
   fst (processAnalysis env_puzzles_rejected ''a1'' sample_world) = None \<and>
   map_option status (findOne (snd (processAnalysis env_puzzles_rejected ''a1'' sample_world)) ''a1'')
     = Some COMPLETED \<and>
   map_option (\<lambda>j. map_option puzzles (result j))
      (findOne (snd (processAnalysis env_puzzles_rejected ''a1'' sample_world)) ''a1'')
     = Some (Some [])"
proof -
  have h: "findOne sample_world ''a1'' = Some sample_job" "status sample_job = PENDING"
    "save_PROCESSING env_puzzles_rejected = None"
    "fst (analyzeGame env_puzzles_rejected) = Inr (omit_puzzles sample_gemini, [sample_puzzle])"
    "[sample_puzzle] \<noteq> []" "userId_of sample_job \<noteq> ''guest''"
    "puzzle_write env_puzzles_rejected = Some (Error ''puzzle store down'')"
    "save_COMPLETED env_puzzles_rejected = None"
    by (simp_all add: sample_find puzzles_rejected_ok)
       (simp_all add: sample_job_def env_puzzles_rejected_def sample_env_def userId_of_def)
  show ?thesis
    using h processAnalysis_puzzle_failure_absorbed [OF h]
    by (simp add: sample_world_def AnalysisResultWithoutPuzzles.extend_def AnalysisResult.fields_def)
qed

text \<open>
  C6.  For a PENDING job of the guest (\<open>user_id\<close> missing, empty or \<open>"guest"\<close>) the
  puzzle collection after the invocation is the one before it, whatever the
  collaborators answer, and when the analysis succeeds and the job's writes are accepted
  the stored COMPLETED job has the empty list of puzzle ids.  For an authenticated owner
  whose puzzle batch is accepted as well, the collection grows by one document per
  candidate, in order, each carrying the candidate, the owner and the job id, and the
  stored result holds exactly the ids of these documents (its \<open>puzzles\<close> field is a
  list of ids; it cannot hold a puzzle body).
\<close>

theorem processAnalysis_puzzles_by_owner:
  assumes "findOne w analysisId = Some analysis"
      and "status analysis = PENDING"
  shows "(userId_of analysis = ''guest'' \<longrightarrow>
            Puzzle (snd (processAnalysis e analysisId w)) = Puzzle w) \<and>
         (save_PROCESSING e = None \<and> fst (analyzeGame e) = Inr (r, candidates) \<and>
          save_COMPLETED e = None \<longrightarrow>
            (userId_of analysis = ''guest'' \<longrightarrow>
               findOne (snd (processAnalysis e analysisId w)) analysisId =
                 Some (analysis\<lparr>result := Some (AnalysisResultWithoutPuzzles.extend r
                                                  (AnalysisResult.fields [])),
                                status := COMPLETED, completed_at := Some (now e)\<rparr>)) \<and>
            (userId_of analysis \<noteq> ''guest'' \<and> puzzle_write e = None \<longrightarrow>
               (\<exists>docs. Puzzle (snd (processAnalysis e analysisId w)) = Puzzle w @ docs \<and>
                  map ChessPuzzle.truncate docs = candidates \<and>
                  (\<forall>d \<in> set docs. puzzle_user_id d = userId_of analysis \<and>
                                   puzzle_analysis_id d = Some analysisId) \<and>
                  map puzzle_id docs =
                    map (new_puzzle_id e)
                      [length (Puzzle w)..<length (Puzzle w) + length candidates] \<and>
                  findOne (snd (processAnalysis e analysisId w)) analysisId =
                    Some (analysis\<lparr>result := Some (AnalysisResultWithoutPuzzles.extend r
                                                     (AnalysisResult.fields (map puzzle_id docs))),
                                   status := COMPLETED, completed_at := Some (now e)\<rparr>))))"
proof (intro conjI impI)
  assume g: "userId_of analysis = ''guest''"
  show "Puzzle (snd (processAnalysis e analysisId w)) = Puzzle w"
    using assms Puzzle_guest [OF g, of e analysisId w]
    by (cases "try_block e analysisId analysis w")
       (auto simp: processAnalysis_def catch_block_def split: option.splits)
next
  assume ok: "save_PROCESSING e = None \<and> fst (analyzeGame e) = Inr (r, candidates) \<and>
              save_COMPLETED e = None"
     and g: "userId_of analysis = ''guest''"
  obtain called where ag: "analyzeGame e = (Inr (r, candidates), called)"
    using ok by (cases "analyzeGame e") auto
  have id: "analysis_id analysis = analysisId"
    using assms(1) by (rule findOne_id)
  let ?a1 = "analysis\<lparr>status := PROCESSING\<rparr>"
  let ?a2 = "with_references e ?a1 r []"
  let ?w1 = "snd (save None ?a1 w)"
  let ?w3 = "?w1\<lparr>effects := effects ?w1 @ called\<rparr>"
  have run: "processAnalysis e analysisId w = save None ?a2 ?w3"
    using assms ok ag g
    by (simp add: processAnalysis_def try_block_def save_def Let_def userId_of_def)
  have f1: "findOne ?w1 analysisId = Some ?a1"
    using assms(1) id by (simp add: findOne_save_accepted)
  have f2: "findOne ?w3 analysisId = Some ?a1"
    using f1 by (simp add: findOne_def)
  have f3: "findOne (snd (save None ?a2 ?w3)) analysisId = Some ?a2"
    using f2 id by (simp add: findOne_save_accepted with_references_def)
  show "findOne (snd (processAnalysis e analysisId w)) analysisId =
          Some (analysis\<lparr>result := Some (AnalysisResultWithoutPuzzles.extend r
                                           (AnalysisResult.fields [])),
                         status := COMPLETED, completed_at := Some (now e)\<rparr>)"
    using run f3 by (simp add: with_references_def)
next
  assume ok: "save_PROCESSING e = None \<and> fst (analyzeGame e) = Inr (r, candidates) \<and>
              save_COMPLETED e = None"
     and ow: "userId_of analysis \<noteq> ''guest'' \<and> puzzle_write e = None"
  obtain called where ag: "analyzeGame e = (Inr (r, candidates), called)"
    using ok by (cases "analyzeGame e") auto
  have id: "analysis_id analysis = analysisId"
    using assms(1) by (rule findOne_id)
  let ?a1 = "analysis\<lparr>status := PROCESSING\<rparr>"
  let ?w1 = "snd (save None ?a1 w)"
  let ?w2 = "?w1\<lparr>effects := effects ?w1 @ called\<rparr>"
  let ?docs = "map (\<lambda>(i, p). ChessPuzzle.extend p
                        (IPuzzle.fields (new_puzzle_id e (length (Puzzle w) + i))
                           (userId_of analysis) (Some analysisId)))
                   (enumerate 0 candidates)"
  let ?ds = "if candidates = [] then [] else ?docs"
  let ?a2 = "with_references e ?a1 r (map puzzle_id ?ds)"
  let ?w3 = "if candidates = [] then ?w2
             else ?w2\<lparr>Puzzle := Puzzle w @ ?docs, effects := effects ?w2 @ [PuzzlesSaved ?docs]\<rparr>"
  have run: "processAnalysis e analysisId w = save None ?a2 ?w3"
    using assms ok ag ow
    by (simp add: processAnalysis_def try_block_def savePuzzles_def save_def Let_def userId_of_def)
  have f1: "findOne ?w1 analysisId = Some ?a1"
    using assms(1) id by (simp add: findOne_save_accepted)
  have f2: "findOne ?w3 analysisId = Some ?a1"
    using f1 by (simp add: findOne_def)
  have f3: "findOne (snd (save None ?a2 ?w3)) analysisId = Some ?a2"
    using f2 id by (simp add: findOne_save_accepted with_references_def)
  have p: "Puzzle (snd (save None ?a2 ?w3)) = Puzzle w @ ?ds"
    by (simp add: save_def)
  have t: "map ChessPuzzle.truncate ?ds = candidates"
    using truncate_docs [where f = "\<lambda>i. new_puzzle_id e (length (Puzzle w) + i)"
                           and u = "userId_of analysis" and a = "Some analysisId"
                           and n = 0 and ps = candidates]
    by simp
  have u: "\<forall>d \<in> set ?ds. puzzle_user_id d = userId_of analysis \<and>
                          puzzle_analysis_id d = Some analysisId"
    by (auto simp: ChessPuzzle.extend_def IPuzzle.fields_def)
  have i: "map puzzle_id ?ds =
             map (new_puzzle_id e) [length (Puzzle w)..<length (Puzzle w) + length candidates]"
    using ids_docs [of "new_puzzle_id e" "length (Puzzle w)" "userId_of analysis"
                       "Some analysisId" 0 candidates]
    by simp
  show "\<exists>docs. Puzzle (snd (processAnalysis e analysisId w)) = Puzzle w @ docs \<and>
          map ChessPuzzle.truncate docs = candidates \<and>
          (\<forall>d \<in> set docs. puzzle_user_id d = userId_of analysis \<and>
                           puzzle_analysis_id d = Some analysisId) \<and>
          map puzzle_id docs =
            map (new_puzzle_id e) [length (Puzzle w)..<length (Puzzle w) + length candidates] \<and>
          findOne (snd (processAnalysis e analysisId w)) analysisId =
            Some (analysis\<lparr>result := Some (AnalysisResultWithoutPuzzles.extend r
                                             (AnalysisResult.fields (map puzzle_id docs))),
                           status := COMPLETED, completed_at := Some (now e)\<rparr>)"
  proof (intro exI [of _ ?ds] conjI)
    show "findOne (snd (processAnalysis e analysisId w)) analysisId =
            Some (analysis\<lparr>result := Some (AnalysisResultWithoutPuzzles.extend r
                                             (AnalysisResult.fields (map puzzle_id ?ds))),
                           status := COMPLETED, completed_at := Some (now e)\<rparr>)"
      using run f3 by (simp add: with_references_def)
  qed (use run p t u i in simp_all)
qed

theorem processAnalysis_puzzles_by_owner_witness:
  "findOne sample_world ''a1'' = Some sample_job \<and> status sample_job = PENDING \<and>
   userId_of sample_job \<noteq> ''guest'' \<and> save_PROCESSING sample_env = None \<and>
   fst (analyzeGame sample_env) = Inr (omit_puzzles sample_gemini, [sample_puzzle]) \<and>
   save_COMPLETED sample_env = None \<and> puzzle_write sample_env = None \<and>
   map ChessPuzzle.truncate (Puzzle (snd (processAnalysis sample_env ''a1'' sample_world))) =
     [sample_puzzle] \<and>
   map puzzle_id (Puzzle (snd (processAnalysis sample_env ''a1'' sample_world))) = [''p''] \<and>
   map_option (\<lambda>j. map_option puzzles (result j))
     (findOne (snd (processAnalysis sample_env ''a1'' sample_world)) ''a1'') = Some (Some [''p'']) \<and>
   findOne guest_world ''a1'' = Some (sample_job\<lparr>user_id := None\<rparr>) \<and>
   userId_of (sample_job\<lparr>user_id := None\<rparr>) = ''guest'' \<and>
   Puzzle (snd (processAnalysis sample_env ''a1'' guest_world)) = [] \<and>
   map_option (\<lambda>j. map_option puzzles (result j))
     (findOne (snd (processAnalysis sample_env ''a1'' guest_world)) ''a1'') = Some (Some [])"
proof -
  have h: "findOne sample_world ''a1'' = Some sample_job" "status sample_job = PENDING"
    by (simp_all add: sample_find) (simp add: sample_job_def)
  have o: "userId_of sample_job \<noteq> ''guest''" "save_PROCESSING sample_env = None"
    "fst (analyzeGame sample_env) = Inr (omit_puzzles sample_gemini, [sample_puzzle])"
    "save_COMPLETED sample_env = None" "puzzle_write sample_env = None"
    by (simp_all add: sample_ok) (simp_all add: sample_job_def sample_env_def userId_of_def)
  have g: "findOne guest_world ''a1'' = Some (sample_job\<lparr>user_id := None\<rparr>)"
    "status (sample_job\<lparr>user_id := None\<rparr>) = PENDING"
    "userId_of (sample_job\<lparr>user_id := None\<rparr>) = ''guest''"
    by (simp_all add: guest_world_def findOne_def sample_job_def userId_of_def sample_world_def)
  have 1: "map ChessPuzzle.truncate (Puzzle (snd (processAnalysis sample_env ''a1'' sample_world))) =
             [sample_puzzle] \<and>
           map puzzle_id (Puzzle (snd (processAnalysis sample_env ''a1'' sample_world))) = [''p''] \<and>
           map_option (\<lambda>j. map_option puzzles (result j))
             (findOne (snd (processAnalysis sample_env ''a1'' sample_world)) ''a1'') =
             Some (Some [''p''])"
    using processAnalysis_puzzles_by_owner
            [OF h, of sample_env "omit_puzzles sample_gemini" "[sample_puzzle]"] o
    by (auto simp: sample_world_def sample_env_def AnalysisResultWithoutPuzzles.extend_def
                   AnalysisResult.fields_def)
  have 2: "Puzzle (snd (processAnalysis sample_env ''a1'' guest_world)) = [] \<and>
           map_option (\<lambda>j. map_option puzzles (result j))
             (findOne (snd (processAnalysis sample_env ''a1'' guest_world)) ''a1'') = Some (Some [])"
    using processAnalysis_puzzles_by_owner
            [OF g(1,2), of sample_env "omit_puzzles sample_gemini" "[sample_puzzle]"] g(3) o
    by (auto simp: guest_world_def sample_world_def AnalysisResultWithoutPuzzles.extend_def
                   AnalysisResult.fields_def)
  show ?thesis using h o g 1 2 by simp
qed

text \<open>
  C1.  The claim: a stored job with a terminal status has exactly one of \<open>result\<close> and
  \<open>error\<close> set, and a job committed as FAILED carries an error and no result.  The
  code at the input where the store rejects the COMPLETED write and accepts the next
  one: the catch block sets status and error on the document that already holds the
  result and the completion time, so the stored FAILED job has all of them.
\<close>

theorem failed_job_keeps_result:
  "map_option (\<lambda>j. (status j, error j, result j \<noteq> None, completed_at j))
     (findOne (snd (processAnalysis env_commit_rejected ''a1'' sample_world)) ''a1'') =
   Some (FAILED, Some ''write failed'', True, Some 7)"
  by (simp add: commit_rejected_run findOne_def with_references_def sample_job_def sample_env_def)




section \<open>The reasoning client\<close>




section \<open>Two invocations for one job\<close>

text \<open>
  C9, the claim as stated fails.  Two invocations for the same fresh job, taking their
  steps in turn: both read the job as PENDING before either has written, both pass the
  guard, both call the external service and both commit COMPLETED.
\<close>

theorem overlapping_invocations_call_twice:
  "(case interleave sample_env sample_env ''a1''
           [True, False, True, False, True, False, True, False, True, False]
           (AtFindOne, AtFindOne, sample_world) of
      (tA, tB, w') \<Rightarrow> (tA, tB, external_calls (effects w'), terminal_commits (effects w'))) =
   (Done None, Done None, 2, 2)"
  unfolding overlapping_run
  by (simp add: external_calls_def terminal_commits_def with_references_def)

text \<open>
  C9, amended.  Let the first invocation read a PENDING job and have its PROCESSING
  write accepted before the second invocation takes its first step; after that the two
  take their steps in any order.  Then the second invocation never gets behind its
  guard, the external service is called at most once and at most one terminal state is
  committed; the call count is exactly one once the first invocation is done (with an
  API key set), and the commit count is exactly one once it has resolved.
\<close>

theorem claimed_job_processed_once:
  assumes "findOne w analysisId = Some analysis"
      and "status analysis = PENDING"
      and "save_PROCESSING eA = None"
      and "interleave eA eB analysisId (True # True # schedule) (AtFindOne, AtFindOne, w) =
             (tA, tB, w')"
  shows "(tB = AtFindOne \<or> tB = Done None) \<and>
         external_calls (effects w') \<le> external_calls (effects w) + 1 \<and>
         terminal_commits (effects w') \<le> terminal_commits (effects w) + 1 \<and>
         ((\<exists>r. tA = Done r) \<and> api_key eA \<noteq> None \<and> api_key eA \<noteq> Some [] \<longrightarrow>
            external_calls (effects w') = external_calls (effects w) + 1) \<and>
         (tA = Done None \<longrightarrow> terminal_commits (effects w') = terminal_commits (effects w) + 1)"
proof -
  let ?a1 = "analysis\<lparr>status := PROCESSING\<rparr>"
  let ?w1 = "snd (save None ?a1 w)"
  have id: "analysis_id analysis = analysisId"
    using assms(1) by (rule findOne_id)
  have two: "interleave eA eB analysisId (True # True # schedule) (AtFindOne, AtFindOne, w) =
               interleave eA eB analysisId schedule (AtAnalyzeGame ?a1, AtFindOne, ?w1)"
    using assms(1-3) by (simp add: save_def)
  have f: "findOne ?w1 analysisId = Some ?a1"
    using assms(1) id by (simp add: findOne_save_accepted)
  have cl: "claimed analysisId (AtAnalyzeGame ?a1) ?w1"
    using f id by (simp add: claimed_def)
  have c: "external_calls (effects ?w1) = external_calls (effects w)"
    "terminal_commits (effects ?w1) = terminal_commits (effects w)"
    using save_counts [of None ?a1 w] by simp_all
  have r: "interleave eA eB analysisId schedule (AtAnalyzeGame ?a1, AtFindOne, ?w1) = (tA, tB, w')"
    using assms(4) two by simp
  have "(tB = AtFindOne \<or> tB = Done None) \<and>
        external_calls (effects w') \<le> external_calls (effects ?w1) + past_call tA \<and>
        (api_key eA \<noteq> None \<and> api_key eA \<noteq> Some [] \<longrightarrow>
           external_calls (effects w') = external_calls (effects ?w1) + past_call tA) \<and>
        terminal_commits (effects w') = terminal_commits (effects ?w1) + committed tA"
    using interleave_claimed [OF cl _ r] by (simp add: past_call_def committed_def)
  moreover have "past_call tA \<le> 1" "committed tA \<le> 1"
    by (simp_all add: past_call_def committed_def split: task.splits)
  moreover have "\<And>r. past_call (Done r) = 1" "committed (Done None) = 1"
    by (simp_all add: past_call_def committed_def)
  ultimately show ?thesis
    using c by auto
qed

theorem claimed_job_processed_once_witness:
  "findOne sample_world ''a1'' = Some sample_job \<and> status sample_job = PENDING \<and>
   save_PROCESSING sample_env = None \<and>
   (case interleave sample_env sample_env ''a1''
           [True, True, False, True, False, True, True, False]
           (AtFindOne, AtFindOne, sample_world) of
      (tA, tB, w') \<Rightarrow> (tA, tB, external_calls (effects w'), terminal_commits (effects w'))) =
   (Done None, Done None, 1, 1)"
proof -
  have h: "findOne sample_world ''a1'' = Some sample_job" "status sample_job = PENDING"
    "save_PROCESSING sample_env = None"
    by (simp_all add: sample_find sample_job_fields sample_env_answers)
  have k: "api_key sample_env \<noteq> None \<and> api_key sample_env \<noteq> Some []"
    by (simp add: sample_env_def)
  have z: "external_calls (effects sample_world) = 0" "terminal_commits (effects sample_world) = 0"
    by (simp_all add: sample_world_def external_calls_def terminal_commits_def)
  show ?thesis
    unfolding claimed_run
    using h k z claimed_job_processed_once [OF h claimed_run]
    by simp
qed

section \<open>The dashboard\<close>

text \<open>
  C8.  For completed games of a white player whose recorded results, the games with
  result \<open>*\<close> set aside, are 1-0, 0-1 and 1/2-1/2 in any order, the win rate is 33:
  one win over the three games with a recorded result, times 100, rounded to the
  nearest integer.  Any number of further games with result \<open>*\<close> leaves it at 33.
\<close>

theorem calculateWinRate_three_results:
  assumes "\<forall>a \<in> set analyses. status a = COMPLETED \<and> player_color a = Some white"
      and "mset (map (\<lambda>a. AnalysisMetadata.result (metadata a))
                 (filter (\<lambda>a. AnalysisMetadata.result (metadata a) \<noteq> ''*'') analyses)) =
           {#''1-0'', ''0-1'', ''1/2-1/2''#}"
  shows "calculateWinRate analyses = Some 33"
proof -
  let ?res = "\<lambda>a. AnalysisMetadata.result (metadata a)"
  let ?cs = "filter (\<lambda>a. status a = COMPLETED \<and> ?res a \<noteq> ''*'') analyses"
  have cs: "?cs = filter (\<lambda>a. ?res a \<noteq> ''*'') analyses"
    using assms(1) by (auto intro: filter_cong)
  have "size (mset (map ?res ?cs)) = 3"
    using assms(2) cs by simp
  then have len: "length ?cs = 3"
    by (simp only: size_mset length_map)
  have w: "filter (\<lambda>a. is_win (?res a) (player_color a)) ?cs = filter (\<lambda>a. ?res a = ''1-0'') ?cs"
    using assms(1) by (auto intro!: filter_cong simp: is_win_def)
  have "Multiset.count (mset (map ?res ?cs)) ''1-0'' = 1"
    using assms(2) cs by simp
  then have wins: "length (filter (\<lambda>a. is_win (?res a) (player_color a)) ?cs) = 1"
    using w count_results [of ?res ?cs "''1-0''"] by simp
  have ne: "?cs \<noteq> []"
    using len by auto
  show ?thesis
    using len wins ne Math_round_third
    by (simp add: calculateWinRate_eq Let_def)
qed

theorem calculateWinRate_three_results_witness:
  "map (\<lambda>a. (status a, player_color a, AnalysisMetadata.result (metadata a)))
     (three_games @ [game (Some white) ''*'']) =
     [(COMPLETED, Some white, ''1-0''), (COMPLETED, Some white, ''0-1''),
      (COMPLETED, Some white, ''1/2-1/2''), (COMPLETED, Some white, ''*'')] \<and>
   calculateWinRate three_games = Some 33 \<and>
   calculateWinRate (three_games @ [game (Some white) ''*'']) = Some 33"
proof -
  have a: "\<forall>a \<in> set (three_games @ [game (Some white) ''*'']).
             status a = COMPLETED \<and> player_color a = Some white"
    by (simp add: three_games_def game_def)
  then have b: "\<forall>a \<in> set three_games. status a = COMPLETED \<and> player_color a = Some white"
    by simp
  have c: "mset (map (\<lambda>a. AnalysisMetadata.result (metadata a))
                 (filter (\<lambda>a. AnalysisMetadata.result (metadata a) \<noteq> ''*'')
                    (three_games @ [game (Some white) ''*'']))) =
           {#''1-0'', ''0-1'', ''1/2-1/2''#}"
    by (simp add: three_games_def game_def)
  have d: "mset (map (\<lambda>a. AnalysisMetadata.result (metadata a))
                 (filter (\<lambda>a. AnalysisMetadata.result (metadata a) \<noteq> ''*'') three_games)) =
           {#''1-0'', ''0-1'', ''1/2-1/2''#}"
    by (simp add: three_games_def game_def)
  have e: "map (\<lambda>a. (status a, player_color a, AnalysisMetadata.result (metadata a)))
             (three_games @ [game (Some white) ''*'']) =
           [(COMPLETED, Some white, ''1-0''), (COMPLETED, Some white, ''0-1''),
            (COMPLETED, Some white, ''1/2-1/2''), (COMPLETED, Some white, ''*'')]"
    by (simp add: three_games_def game_def)
  show ?thesis
    using e calculateWinRate_three_results [OF a c] calculateWinRate_three_results [OF b d]
    by simp
qed




end
